theory Spec2Isabelle
  imports Complex_Main
begin

section \<open>Values\<close>

text \<open>
  The program is a Streamlit page over one SQLite connection (\<^verbatim>\<open>app.py\<close>). Python values
  cross into SQLite as statement parameters and come back as the cells of fetched rows.

  A Python \<^verbatim>\<open>str\<close> is a \<^typ>\<open>string\<close> whose characters are the code points below 256; a
  Python \<^verbatim>\<open>float\<close> is the real number it denotes (finite floats only: no NaN, no
  infinities); a Python \<^verbatim>\<open>int\<close> is an unbounded \<^typ>\<open>int\<close>; a \<^verbatim>\<open>datetime.date\<close> is
  the record of its three fields.
\<close>

record date =
  year :: nat
  month :: nat
  day :: nat

datatype pyval =
    PyNone
  | PyBool bool
  | PyInt int
  | PyFloat real
  | PyStr string
  | PyDate date
  | PyList "pyval list"

text \<open>The exceptions the modelled functions can raise.\<close>

datatype error =
    ValueError string
  | IntegrityError
  | OperationalError
  | OverflowError
  | ProgrammingError

section \<open>Validation\<close>

text \<open>
  Python's truth value of an object, as \<^verbatim>\<open>not value\<close> tests it: \<^verbatim>\<open>None\<close>, \<^verbatim>\<open>False\<close>,
  a zero number and an empty string or list are false; a date is always true.
\<close>

fun truthy :: "pyval \<Rightarrow> bool" where
  "truthy PyNone = False"
| "truthy (PyBool b) = b"
| "truthy (PyInt i) = (i \<noteq> 0)"
| "truthy (PyFloat r) = (r \<noteq> 0)"
| "truthy (PyStr s) = (s \<noteq> [])"
| "truthy (PyDate d) = True"
| "truthy (PyList xs) = (xs \<noteq> [])"

text \<open>
  The characters \<^verbatim>\<open>str.strip()\<close> removes, among the code points below 256: tab, line
  feed, vertical tab, form feed, carriage return, the four separators 28 to 31, space,
  next line (133) and no-break space (160).
\<close>

definition is_space :: "char \<Rightarrow> bool" where
  "is_space c = ((of_char c :: nat) \<in> {9, 10, 11, 12, 13, 28, 29, 30, 31, 32, 133, 160})"

definition strip :: "string \<Rightarrow> string" where
  "strip s = rev (dropWhile is_space (rev (dropWhile is_space s)))"

text \<open>
  The condition of the \<^verbatim>\<open>if\<close> in \<^verbatim>\<open>validate_input\<close>:
  \<^verbatim>\<open>not value or (isinstance(value, str) and len(value.strip()) == 0)\<close>.
\<close>

fun rejected :: "pyval \<Rightarrow> bool" where
  "rejected (PyStr s) = (\<not> truthy (PyStr s) \<or> length (strip s) = 0)"
| "rejected v = (\<not> truthy v)"

text \<open>
  \<^verbatim>\<open>validate_input(**kwargs)\<close>: the keyword arguments are the list of (name, value) pairs in
  the order of the call; the loop raises at the first rejected value and returns \<^verbatim>\<open>None\<close>
  when it reaches the end.
\<close>

fun validate_input :: "(string \<times> pyval) list \<Rightarrow> error + unit" where
  "validate_input [] = Inr ()"
| "validate_input ((field, value) # kwargs) =
     (if rejected value then Inl (ValueError (field @ '' cannot be empty!''))
      else validate_input kwargs)"

section \<open>Binding parameters\<close>

text \<open>
  \<^verbatim>\<open>date.isoformat()\<close>, the text the \<^verbatim>\<open>sqlite3\<close> module's default adapter stores for a
  \<^verbatim>\<open>datetime.date\<close>: \<^verbatim>\<open>YYYY-MM-DD\<close>, zero padded.
\<close>

definition digit :: "nat \<Rightarrow> char" where
  "digit n = ''0123456789'' ! (n mod 10)"

definition isoformat :: "date \<Rightarrow> string" where
  "isoformat d =
     [digit (year d div 1000), digit (year d div 100), digit (year d div 10), digit (year d),
      CHR ''-'', digit (month d div 10), digit (month d),
      CHR ''-'', digit (day d div 10), digit (day d)]"

text \<open>The values SQLite stores: its storage classes NULL, INTEGER, REAL and TEXT.\<close>

datatype sqlval = Null | Integer int | Real real | Text string

text \<open>An SQLite INTEGER is a signed 64-bit number.\<close>

definition int64 :: "int \<Rightarrow> bool" where
  "int64 i = (- (2 ^ 63) \<le> i \<and> i < 2 ^ 63)"

text \<open>
  How \<^verbatim>\<open>cursor.execute(query, params)\<close> turns one Python parameter into an SQLite value:
  \<^verbatim>\<open>None\<close> is NULL, an \<^verbatim>\<open>int\<close> (and a \<^verbatim>\<open>bool\<close>, its subclass) is an INTEGER and raises
  \<^verbatim>\<open>OverflowError\<close> outside 64 bits, a \<^verbatim>\<open>float\<close> is a REAL, a \<^verbatim>\<open>str\<close> is a TEXT, a
  \<^verbatim>\<open>date\<close> is adapted to its ISO text, and a type without adapter raises
  \<^verbatim>\<open>ProgrammingError\<close>. The parameters are bound in order; the first failure raises.
\<close>

fun bind :: "pyval \<Rightarrow> error + sqlval" where
  "bind PyNone = Inr Null"
| "bind (PyBool b) = Inr (Integer (if b then 1 else 0))"
| "bind (PyInt i) = (if int64 i then Inr (Integer i) else Inl OverflowError)"
| "bind (PyFloat r) = Inr (Real r)"
| "bind (PyStr s) = Inr (Text s)"
| "bind (PyDate d) = Inr (Text (isoformat d))"
| "bind (PyList xs) = Inl ProgrammingError"

fun bind_all :: "pyval list \<Rightarrow> error + sqlval list" where
  "bind_all [] = Inr []"
| "bind_all (v # vs) =
     (case bind v of
        Inl e \<Rightarrow> Inl e
      | Inr x \<Rightarrow> (case bind_all vs of Inl e \<Rightarrow> Inl e | Inr xs \<Rightarrow> Inr (x # xs)))"

section \<open>The schema\<close>

text \<open>
  The three \<^verbatim>\<open>CREATE TABLE\<close> statements. Every table starts with
  \<^verbatim>\<open>id INTEGER PRIMARY KEY AUTOINCREMENT\<close>; \<^term>\<open>columns\<close> lists the columns after it. A
  declared type gives the column its affinity (TEXT, REAL, INTEGER as named; DATE gives
  NUMERIC), and every column after \<^verbatim>\<open>id\<close> is \<^verbatim>\<open>NOT NULL\<close>.
\<close>

datatype table = Purchases | Sales | Orders

datatype affinity = AffText | AffNumeric | AffInteger | AffReal

datatype check_constraint =
    NoCheck
  | NonNegative  \<comment> \<open>\<^verbatim>\<open>CHECK(price >= 0)\<close>\<close>
  | Positive  \<comment> \<open>\<^verbatim>\<open>CHECK(quantity > 0)\<close>\<close>
  | IsStatus  \<comment> \<open>\<^verbatim>\<open>CHECK(status IN ('Pending', 'Completed'))\<close>\<close>

record column =
  col_name :: string
  col_affinity :: affinity
  col_not_null :: bool
  col_check :: check_constraint

definition mk_column :: "string \<Rightarrow> affinity \<Rightarrow> check_constraint \<Rightarrow> column" where
  "mk_column n a c = \<lparr>col_name = n, col_affinity = a, col_not_null = True, col_check = c\<rparr>"

fun columns :: "table \<Rightarrow> column list" where
  "columns Purchases =
     [mk_column ''product_name'' AffText NoCheck,
      mk_column ''price'' AffReal NonNegative,
      mk_column ''quantity'' AffInteger Positive,
      mk_column ''vendor'' AffText NoCheck,
      mk_column ''purchase_date'' AffNumeric NoCheck]"
| "columns Sales =
     [mk_column ''product_name'' AffText NoCheck,
      mk_column ''price'' AffReal NonNegative,
      mk_column ''quantity'' AffInteger Positive,
      mk_column ''customer'' AffText NoCheck,
      mk_column ''sale_date'' AffNumeric NoCheck]"
| "columns Orders =
     [mk_column ''product_name'' AffText NoCheck,
      mk_column ''quantity'' AffInteger Positive,
      mk_column ''status'' AffText IsStatus,
      mk_column ''order_date'' AffNumeric NoCheck]"

section \<open>Storing a value in a column\<close>

text \<open>
  Before a value is stored or checked, SQLite applies the column's affinity to it. A value
  that already has the storage class the column asks for is kept as it is: NULL anywhere,
  TEXT in a TEXT column, INTEGER in an INTEGER or NUMERIC column, REAL in a REAL column, and
  in a NUMERIC column a text that is not a number, as every ISO date is. For the other
  combinations SQLite converts between text and numbers (and rounds integers to floats);
  that conversion is the parameter \<open>cv\<close> of the model, of type \<open>coercion\<close>, and nothing is
  assumed about it.
\<close>

definition is_digit :: "char \<Rightarrow> bool" where
  "is_digit c = (c \<in> set ''0123456789'')"

fun is_iso_date :: "string \<Rightarrow> bool" where
  "is_iso_date [y1, y2, y3, y4, a, m1, m2, b, d1, d2] =
     (is_digit y1 \<and> is_digit y2 \<and> is_digit y3 \<and> is_digit y4 \<and> a = CHR ''-'' \<and>
      is_digit m1 \<and> is_digit m2 \<and> b = CHR ''-'' \<and> is_digit d1 \<and> is_digit d2)"
| "is_iso_date _ = False"

type_synonym coercion = "affinity \<Rightarrow> sqlval \<Rightarrow> sqlval"

fun native :: "affinity \<Rightarrow> sqlval \<Rightarrow> bool" where
  "native a Null = True"
| "native AffText (Text s) = True"
| "native AffInteger (Integer i) = True"
| "native AffNumeric (Integer i) = True"
| "native AffReal (Real r) = True"
| "native AffNumeric (Text s) = is_iso_date s"
| "native a v = False"

definition apply_affinity :: "coercion \<Rightarrow> affinity \<Rightarrow> sqlval \<Rightarrow> sqlval" where
  "apply_affinity cv a v = (if native a v then v else cv a v)"

text \<open>
  A \<^verbatim>\<open>CHECK\<close> fails only when its expression is false; on NULL it is NULL, which passes
  (the \<^verbatim>\<open>NOT NULL\<close> constraint is what rejects a NULL). In a comparison a text is greater
  than every number, and \<^verbatim>\<open>IN\<close> over two text literals holds for exactly these two texts.
\<close>

fun passes :: "check_constraint \<Rightarrow> sqlval \<Rightarrow> bool" where
  "passes NoCheck v = True"
| "passes NonNegative Null = True"
| "passes NonNegative (Integer i) = (0 \<le> i)"
| "passes NonNegative (Real r) = (0 \<le> r)"
| "passes NonNegative (Text s) = True"
| "passes Positive Null = True"
| "passes Positive (Integer i) = (0 < i)"
| "passes Positive (Real r) = (0 < r)"
| "passes Positive (Text s) = True"
| "passes IsStatus Null = True"
| "passes IsStatus (Text s) = (s = ''Pending'' \<or> s = ''Completed'')"
| "passes IsStatus v = False"

definition admits :: "column \<Rightarrow> sqlval \<Rightarrow> bool" where
  "admits c v = ((col_not_null c \<longrightarrow> v \<noteq> Null) \<and> passes (col_check c) v)"

section \<open>The database\<close>

text \<open>
  A table is its rows in rowid order, each row the id and the values of the other columns,
  and the largest id ever given out (the table's entry in \<^verbatim>\<open>sqlite_sequence\<close>, kept by
  \<^verbatim>\<open>AUTOINCREMENT\<close>). The connection is the program's only state.
\<close>

type_synonym row = "int \<times> sqlval list"

record tbl =
  rows :: "row list"
  seq :: int

type_synonym db = "table \<Rightarrow> tbl"

definition init_db :: db where
  "init_db = (\<lambda>t. \<lparr>rows = [], seq = 0\<rparr>)"

definition ids :: "tbl \<Rightarrow> int list" where
  "ids tb = map fst (rows tb)"

text \<open>\<^verbatim>\<open>AUTOINCREMENT\<close>: one more than the largest id the table holds or ever held.\<close>

definition next_rowid :: "tbl \<Rightarrow> int" where
  "next_rowid tb = Max (set (seq tb # ids tb)) + 1"

text \<open>The largest rowid: ids are signed 64-bit numbers.\<close>

definition max_rowid :: int where
  "max_rowid = 2 ^ 63 - 1"

text \<open>
  \<^verbatim>\<open>INSERT INTO {table} VALUES (NULL, ?, ..., ?)\<close> with one placeholder per element of
  \<^verbatim>\<open>data\<close>. Preparing the statement fails with \<^verbatim>\<open>OperationalError\<close> unless the table has
  as many columns as values are given; then the parameters are bound; then the statement
  runs: it takes the fresh id, which fails with \<^verbatim>\<open>OperationalError\<close> (database or disk is
  full) once the largest rowid has been given out, builds the row, checks it against
  \<^verbatim>\<open>NOT NULL\<close> and \<^verbatim>\<open>CHECK\<close> (\<^verbatim>\<open>IntegrityError\<close>) and stores it. A failed statement
  changes nothing.
\<close>

definition execute_insert :: "coercion \<Rightarrow> table \<Rightarrow> pyval list \<Rightarrow> db \<Rightarrow> error + db" where
  "execute_insert cv t data db =
     (if length data \<noteq> length (columns t) then Inl OperationalError
      else case bind_all data of
        Inl e \<Rightarrow> Inl e
      | Inr vs \<Rightarrow>
          (let ws = map2 (\<lambda>c v. apply_affinity cv (col_affinity c) v) (columns t) vs;
               i = next_rowid (db t)
           in if max_rowid < i then Inl OperationalError
              else if list_all2 admits (columns t) ws
              then Inr (db(t := \<lparr>rows = rows (db t) @ [(i, ws)], seq = i\<rparr>))
              else Inl IntegrityError))"

text \<open>
  \<^verbatim>\<open>UPDATE {table} SET status = ? WHERE id = ?\<close> with the parameters
  \<^verbatim>\<open>(new_status, record_id)\<close>. A table without a \<^verbatim>\<open>status\<close> column makes the statement
  fail with \<^verbatim>\<open>OperationalError\<close>. The \<^verbatim>\<open>id\<close> column is an INTEGER: a numeric parameter is
  compared by value, a text one after the numeric conversion, NULL matches nothing. The
  constraints of the \<^verbatim>\<open>status\<close> column are checked for a row that is updated, not when no
  row matches.
\<close>

fun column_index :: "string \<Rightarrow> column list \<Rightarrow> nat option" where
  "column_index n [] = None"
| "column_index n (c # cs) =
     (if col_name c = n then Some 0 else map_option Suc (column_index n cs))"

definition id_matches :: "coercion \<Rightarrow> sqlval \<Rightarrow> int \<Rightarrow> bool" where
  "id_matches cv p i =
     (case apply_affinity cv AffNumeric p of
        Integer n \<Rightarrow> n = i
      | Real r \<Rightarrow> r = of_int i
      | _ \<Rightarrow> False)"

definition set_column :: "nat \<Rightarrow> sqlval \<Rightarrow> row \<Rightarrow> row" where
  "set_column k v r = (fst r, (snd r)[k := v])"

definition execute_update_status ::
  "coercion \<Rightarrow> table \<Rightarrow> pyval \<Rightarrow> pyval \<Rightarrow> db \<Rightarrow> error + db" where
  "execute_update_status cv t new_status record_id db =
     (case column_index ''status'' (columns t) of
        None \<Rightarrow> Inl OperationalError
      | Some k \<Rightarrow>
          (case bind_all [new_status, record_id] of
             Inl e \<Rightarrow> Inl e
           | Inr ps \<Rightarrow>
               (let c = columns t ! k;
                    s = apply_affinity cv (col_affinity c) (ps ! 0);
                    hit = (\<lambda>r. id_matches cv (ps ! 1) (fst r))
                in if \<not> list_ex hit (rows (db t)) then Inr db
                   else if admits c s
                   then Inr (db(t := (db t)\<lparr>rows :=
                          map (\<lambda>r. if hit r then set_column k s r else r) (rows (db t))\<rparr>))
                   else Inl IntegrityError)))"

section \<open>The utility functions of app.py\<close>

text \<open>
  Each function runs its statement on the shared cursor and commits. An exception leaves
  the function before the commit, with the database as it was. \<^verbatim>\<open>add_record\<close> and
  \<^verbatim>\<open>update_record_status\<close> have no \<^verbatim>\<open>return\<close> statement: a call that does not raise
  evaluates to \<^verbatim>\<open>None\<close>.
\<close>

definition add_record :: "coercion \<Rightarrow> table \<Rightarrow> pyval list \<Rightarrow> db \<Rightarrow> (error + pyval) \<times> db" where
  "add_record cv t data db =
     (case execute_insert cv t data db of
        Inl e \<Rightarrow> (Inl e, db)
      | Inr db' \<Rightarrow> (Inr PyNone, db'))"

definition update_record_status ::
  "coercion \<Rightarrow> table \<Rightarrow> pyval \<Rightarrow> pyval \<Rightarrow> db \<Rightarrow> (error + pyval) \<times> db" where
  "update_record_status cv t record_id new_status db =
     (case execute_update_status cv t new_status record_id db of
        Inl e \<Rightarrow> (Inl e, db)
      | Inr db' \<Rightarrow> (Inr PyNone, db'))"

text \<open>
  \<^verbatim>\<open>fetch_data\<close>: \<^verbatim>\<open>SELECT * FROM {table}\<close> walks the table in rowid order; the data frame
  is the column names from the cursor description and the fetched rows, \<^verbatim>\<open>id\<close> first.
\<close>

definition fetch_data :: "table \<Rightarrow> db \<Rightarrow> string list \<times> sqlval list list" where
  "fetch_data t db =
     (''id'' # map col_name (columns t), map (\<lambda>r. Integer (fst r) # snd r) (rows (db t)))"

text \<open>
  The Python object that \<^verbatim>\<open>cursor.fetchall()\<close> hands over for a stored value, and that the
  data frame holds as the cell: \<^verbatim>\<open>None\<close>, an \<^verbatim>\<open>int\<close>, a \<^verbatim>\<open>float\<close> or a \<^verbatim>\<open>str\<close>. The
  connection is opened without \<^verbatim>\<open>detect_types\<close>, so no converter turns a text back into a
  date.
\<close>

fun fetched :: "sqlval \<Rightarrow> pyval" where
  "fetched Null = PyNone"
| "fetched (Integer i) = PyInt i"
| "fetched (Real r) = PyFloat r"
| "fetched (Text s) = PyStr s"

text \<open>
  \<^verbatim>\<open>generate_csv_download\<close> passes the data frame to \<^verbatim>\<open>DataFrame.to_csv\<close> and the bytes to
  the download button. The text pandas writes for a floating-point price and its quoting
  of a cell are the library's, and the program reads no CSV back, so the export is left
  outside the model. Each page offers it only when the fetched table is not empty.
\<close>

section \<open>The forms\<close>

text \<open>
  What a form does when it is submitted: validate the text inputs, insert, report success;
  \<^verbatim>\<open>except ValueError as e: st.error(e)\<close> shows a \<^verbatim>\<open>ValueError\<close> and lets every other
  exception through. The widgets give a \<^verbatim>\<open>str\<close> for a text input, a \<^verbatim>\<open>float\<close> for the
  price, an \<^verbatim>\<open>int\<close> for the quantity and a \<^verbatim>\<open>date\<close> for the date.
\<close>

datatype feedback = Success string | ErrorShown string | Uncaught error

fun on_error :: "error \<Rightarrow> feedback" where
  "on_error (ValueError m) = ErrorShown m"
| "on_error e = Uncaught e"

definition submit ::
  "coercion \<Rightarrow> (string \<times> pyval) list \<Rightarrow> table \<Rightarrow> pyval list \<Rightarrow> string \<Rightarrow> db \<Rightarrow> feedback \<times> db" where
  "submit cv kwargs t data msg db =
     (case validate_input kwargs of
        Inl e \<Rightarrow> (on_error e, db)
      | Inr u \<Rightarrow>
          (case add_record cv t data db of
             (Inl e, db') \<Rightarrow> (on_error e, db')
           | (Inr r, db') \<Rightarrow> (Success msg, db')))"

definition submit_purchase ::
  "coercion \<Rightarrow> string \<Rightarrow> real \<Rightarrow> int \<Rightarrow> string \<Rightarrow> date \<Rightarrow> db \<Rightarrow> feedback \<times> db" where
  "submit_purchase cv product_name price quantity vendor purchase_date db =
     submit cv [(''ProductName'', PyStr product_name), (''Vendor'', PyStr vendor)]
       Purchases
       [PyStr product_name, PyFloat price, PyInt quantity, PyStr vendor, PyDate purchase_date]
       ''Purchase added successfully!'' db"

definition submit_sale ::
  "coercion \<Rightarrow> string \<Rightarrow> real \<Rightarrow> int \<Rightarrow> string \<Rightarrow> date \<Rightarrow> db \<Rightarrow> feedback \<times> db" where
  "submit_sale cv product_name price quantity customer sale_date db =
     submit cv [(''ProductName'', PyStr product_name), (''Customer'', PyStr customer)]
       Sales
       [PyStr product_name, PyFloat price, PyInt quantity, PyStr customer, PyDate sale_date]
       ''Sale added successfully!'' db"

definition submit_order ::
  "coercion \<Rightarrow> string \<Rightarrow> int \<Rightarrow> string \<Rightarrow> date \<Rightarrow> db \<Rightarrow> feedback \<times> db" where
  "submit_order cv product_name quantity status order_date db =
     submit cv [(''ProductName'', PyStr product_name)]
       Orders
       [PyStr product_name, PyInt quantity, PyStr status, PyDate order_date]
       ''Order added successfully!'' db"

section \<open>Inputs and states the properties speak of\<close>

text \<open>A text input the validation refuses: empty, or nothing but whitespace.\<close>

definition blank :: "string \<Rightarrow> bool" where
  "blank s = (strip s = [])"

text \<open>
  A value of the type its column declares: a \<^verbatim>\<open>str\<close> for TEXT, a \<^verbatim>\<open>float\<close> for REAL, an
  \<^verbatim>\<open>int\<close> for INTEGER, a \<^verbatim>\<open>date\<close> for DATE.
\<close>

fun fits :: "affinity \<Rightarrow> pyval \<Rightarrow> bool" where
  "fits AffText (PyStr s) = True"
| "fits AffReal (PyFloat r) = True"
| "fits AffInteger (PyInt i) = True"
| "fits AffNumeric (PyDate d) = True"
| "fits a v = False"

text \<open>A value that is no \<^verbatim>\<open>int\<close> beyond the 64 bits of an SQLite INTEGER.\<close>

fun fits_int64 :: "pyval \<Rightarrow> bool" where
  "fits_int64 (PyInt i) = int64 i"
| "fits_int64 v = True"

definition well_typed :: "table \<Rightarrow> pyval list \<Rightarrow> bool" where
  "well_typed t data = list_all2 (\<lambda>c v. fits (col_affinity c) v) (columns t) data"

text \<open>
  A valid input: well typed, with a price of at least 0, a quantity above 0 and a status
  that is one of the two names.
\<close>

fun meets :: "check_constraint \<Rightarrow> pyval \<Rightarrow> bool" where
  "meets NoCheck v = True"
| "meets NonNegative (PyFloat r) = (0 \<le> r)"
| "meets Positive (PyInt i) = (0 < i)"
| "meets IsStatus (PyStr s) = (s = ''Pending'' \<or> s = ''Completed'')"
| "meets c v = False"

definition valid_input :: "table \<Rightarrow> pyval list \<Rightarrow> bool" where
  "valid_input t data =
     (well_typed t data \<and> list_all2 (\<lambda>c v. meets (col_check c) v) (columns t) data)"

text \<open>
  The states a database file can be in: in every table the ids ascend strictly, are at
  least 1 and at most the recorded sequence number, which is not negative, and a row has a
  value for every column.
\<close>

definition wf_tbl :: "table \<Rightarrow> tbl \<Rightarrow> bool" where
  "wf_tbl t tb =
     (sorted_wrt (<) (ids tb) \<and> 0 \<le> seq tb \<and>
      list_all (\<lambda>i. 1 \<le> i \<and> i \<le> seq tb) (ids tb) \<and>
      list_all (\<lambda>r. length (snd r) = length (columns t)) (rows tb))"

definition wf_db :: "db \<Rightarrow> bool" where
  "wf_db db =
     (wf_tbl Purchases (db Purchases) \<and> wf_tbl Sales (db Sales) \<and> wf_tbl Orders (db Orders))"

text \<open>The states the program reaches from an empty database by its two writing functions.\<close>

inductive reachable :: "coercion \<Rightarrow> db \<Rightarrow> bool" for cv :: coercion where
  reachable_init: "reachable cv init_db"
| reachable_add: "reachable cv db \<Longrightarrow> reachable cv (snd (add_record cv t data db))"
| reachable_update:
    "reachable cv db \<Longrightarrow> reachable cv (snd (update_record_status cv t record_id new_status db))"

section \<open>Example data\<close>

text \<open>Two dates and two small databases on which the properties below are instantiated.\<close>

definition jan15 :: date where
  "jan15 = \<lparr>year = 2024, month = 1, day = 15\<rparr>"

definition feb01 :: date where
  "feb01 = \<lparr>year = 2024, month = 2, day = 1\<rparr>"

definition one_purchase :: db where
  "one_purchase = init_db(Purchases :=
     \<lparr>rows = [(1, [Text ''Widget'', Real 9.99, Integer 3, Text ''Acme Co'', Text ''2024-01-15''])],
      seq = 1\<rparr>)"

definition two_orders :: db where
  "two_orders = init_db(Orders :=
     \<lparr>rows = [(1, [Text ''Gadget'', Integer 2, Text ''Pending'', Text ''2024-02-01'']),
              (2, [Text ''Widget'', Integer 5, Text ''Pending'', Text ''2024-02-03''])],
      seq = 2\<rparr>)"

section \<open>Evaluation and helper lemmas\<close>

lemmas model_defs =
  add_record_def execute_insert_def next_rowid_def ids_def apply_affinity_def admits_def
  mk_column_def int64_def max_rowid_def isoformat_def digit_def is_digit_def init_db_def

lemmas space_defs = blank_def strip_def is_space_def

lemma validate_input_append:
  "validate_input (pre @ kw) =
     (case find (\<lambda>p. rejected (snd p)) pre of
        None \<Rightarrow> validate_input kw
      | Some p \<Rightarrow> Inl (ValueError (fst p @ '' cannot be empty!'')))"
  by (induction pre) auto

lemma falsy_rejected: "\<not> truthy v \<Longrightarrow> rejected v"
  by (cases v) auto

lemma rejected_PyStr: "rejected (PyStr s) = blank s"
  by (auto simp: blank_def strip_def)

lemma validate_two:
  "validate_input [(f, PyStr a), (g, PyStr b)] =
     (if blank a then Inl (ValueError (f @ '' cannot be empty!''))
      else if blank b then Inl (ValueError (g @ '' cannot be empty!''))
      else Inr ())"
  by (simp add: rejected_PyStr del: rejected.simps)

lemma validate_one:
  "validate_input [(f, PyStr a)] =
     (if blank a then Inl (ValueError (f @ '' cannot be empty!'')) else Inr ())"
  by (simp add: rejected_PyStr del: rejected.simps)

subsection \<open>Binding and inserting\<close>

lemma is_digit_digit: "is_digit (digit n)"
  by (simp add: is_digit_def digit_def del: set_simps)

lemma is_iso_date_isoformat: "is_iso_date (isoformat d)"
  by (simp add: isoformat_def is_digit_digit)

lemma bind_fits:
  "fits a v \<Longrightarrow> fits_int64 v \<Longrightarrow> \<exists>x. bind v = Inr x \<and> native a x \<and> x \<noteq> Null"
  by (cases a; cases v) (simp_all add: is_iso_date_isoformat)

lemma fetched_bound:
  "fits a v \<Longrightarrow> bind v = Inr x \<Longrightarrow>
   (\<forall>d. v = PyDate d \<longrightarrow> fetched x = PyStr (isoformat d)) \<and>
   ((\<forall>d. v \<noteq> PyDate d) \<longrightarrow> fetched x = v)"
  by (cases a; cases v) (auto split: if_splits)

lemma bind_meets:
  "fits a v \<Longrightarrow> meets c v \<Longrightarrow> bind v = Inr x \<Longrightarrow> passes c x"
  by (cases a; cases v; cases c) (auto split: if_splits)

lemma bind_all_map: "bind_all data = Inr vs \<Longrightarrow> map bind data = map Inr vs"
  by (induction data arbitrary: vs) (auto split: sum.splits)

lemma bind_all_length: "bind_all data = Inr vs \<Longrightarrow> length vs = length data"
  by (induction data arbitrary: vs) (auto split: sum.splits)

lemma bound_values:
  assumes "map bind data = map Inr vs" "k < length data"
  shows "(\<forall>s. data ! k = PyStr s \<longrightarrow> vs ! k = Text s) \<and>
         (\<forall>r. data ! k = PyFloat r \<longrightarrow> vs ! k = Real r) \<and>
         (\<forall>i. data ! k = PyInt i \<longrightarrow> vs ! k = Integer i) \<and>
         (\<forall>d. data ! k = PyDate d \<longrightarrow> vs ! k = Text (isoformat d))"
proof -
  have l: "length vs = length data"
    using assms(1) by (metis length_map)
  have "map bind data ! k = map Inr vs ! k"
    using assms(1) by simp
  then have "bind (data ! k) = Inr (vs ! k)"
    using assms(2) l by simp
  then show ?thesis
    by (auto split: if_splits)
qed

lemma bind_all_typed:
  "list_all2 (\<lambda>c v. fits (col_affinity c) v \<and> meets (col_check c) v \<and> fits_int64 v) cs data \<Longrightarrow>
   \<exists>vs. bind_all data = Inr vs \<and>
        map2 (\<lambda>c v. apply_affinity cv (col_affinity c) v) cs vs = vs \<and>
        list_all2 admits cs vs"
proof (induction cs data rule: list_all2_induct)
  case Nil
  then show ?case by simp
next
  case (Cons c cs v data)
  from Cons.hyps(1) obtain x where x: "bind v = Inr x" "native (col_affinity c) x" "x \<noteq> Null"
    using bind_fits by blast
  from Cons.hyps(1) x(1) have p: "passes (col_check c) x"
    using bind_meets by blast
  from Cons.IH obtain vs where vs: "bind_all data = Inr vs"
      "map2 (\<lambda>c v. apply_affinity cv (col_affinity c) v) cs vs = vs" "list_all2 admits cs vs"
    by blast
  from x p have ad: "admits c x"
    by (simp add: admits_def)
  show ?case
    using x ad vs by (simp add: apply_affinity_def)
qed

lemma valid_input_conj:
  "valid_input t data =
     list_all2 (\<lambda>c v. fits (col_affinity c) v \<and> meets (col_check c) v) (columns t) data"
  by (auto simp: valid_input_def well_typed_def list_all2_conv_all_nth)

lemma valid_input_int64:
  "valid_input t data \<Longrightarrow> list_all fits_int64 data \<Longrightarrow>
   list_all2 (\<lambda>c v. fits (col_affinity c) v \<and> meets (col_check c) v \<and> fits_int64 v)
     (columns t) data"
  by (auto simp: valid_input_conj list_all2_conv_all_nth list_all_length)

lemma execute_insert_valid:
  assumes "valid_input t data" "list_all fits_int64 data" "next_rowid (db t) \<le> max_rowid"
  shows "\<exists>vs. bind_all data = Inr vs \<and>
     execute_insert cv t data db =
       Inr (db(t := \<lparr>rows = rows (db t) @ [(next_rowid (db t), vs)], seq = next_rowid (db t)\<rparr>))"
proof -
  from assms(1,2) have a:
    "list_all2 (\<lambda>c v. fits (col_affinity c) v \<and> meets (col_check c) v \<and> fits_int64 v)
       (columns t) data"
    by (rule valid_input_int64)
  then have len: "length data = length (columns t)"
    by (simp add: list_all2_lengthD)
  from bind_all_typed [OF a, of cv] obtain vs where vs: "bind_all data = Inr vs"
      "map2 (\<lambda>c v. apply_affinity cv (col_affinity c) v) (columns t) vs = vs"
      "list_all2 admits (columns t) vs"
    by blast
  show ?thesis
    using len vs assms(3) by (simp add: execute_insert_def Let_def)
qed

lemma next_rowid_gt: "i \<in> set (ids tb) \<Longrightarrow> i < next_rowid tb"
proof -
  assume "i \<in> set (ids tb)"
  then have "i \<le> Max (set (seq tb # ids tb))"
    by (intro Max_ge) simp_all
  then show ?thesis
    by (simp add: next_rowid_def)
qed

lemma next_rowid_gt_seq: "seq tb < next_rowid tb"
proof -
  have "seq tb \<le> Max (set (seq tb # ids tb))"
    by (intro Max_ge) simp_all
  then show ?thesis
    by (simp add: next_rowid_def)
qed

lemma insert_appends:
  "fst (add_record cv t data db) = Inr r \<Longrightarrow>
   \<exists>row. rows (snd (add_record cv t data db) t) = rows (db t) @ [row]"
  by (auto simp: add_record_def execute_insert_def Let_def split: sum.splits if_splits)

lemma add_record_prefix: "\<exists>new. rows (snd (add_record cv t data db) t') = rows (db t') @ new"
  by (auto simp: add_record_def execute_insert_def Let_def split: sum.splits)

subsection \<open>Updating the status\<close>

lemma status_index: "column_index ''status'' (columns t) = (if t = Orders then Some 2 else None)"
  by (cases t) (simp_all add: mk_column_def)

lemma status_column: "columns Orders ! 2 = mk_column ''status'' AffText IsStatus"
  by simp

lemma update_cases:
  "snd (update_record_status cv t record_id new_status db) = db \<or>
   (t = Orders \<and>
    (\<exists>p v. bind record_id = Inr p \<and>
       snd (update_record_status cv t record_id new_status db) =
         db(Orders := (db Orders)\<lparr>rows :=
              map (\<lambda>r. if id_matches cv p (fst r) then set_column 2 v r else r)
                (rows (db Orders))\<rparr>)))"
  by (auto simp: update_record_status_def execute_update_status_def status_index Let_def
      simp del: columns.simps split: sum.splits)

lemma id_matches_Integer: "id_matches cv (Integer n) i = (n = i)"
  by (simp add: id_matches_def apply_affinity_def)

lemma update_orders_typed:
  assumes "int64 i"
  shows "update_record_status cv Orders (PyInt i) (PyStr s) db =
     (if \<not> list_ex (\<lambda>r. fst r = i) (rows (db Orders)) then (Inr PyNone, db)
      else if s = ''Pending'' \<or> s = ''Completed''
      then (Inr PyNone,
            db(Orders := (db Orders)\<lparr>rows :=
              map (\<lambda>r. if fst r = i then set_column 2 (Text s) r else r) (rows (db Orders))\<rparr>))
      else (Inl IntegrityError, db))"
  using assms
  by (simp add: update_record_status_def execute_update_status_def status_index status_column
      Let_def id_matches_Integer apply_affinity_def admits_def mk_column_def eq_commute [of i]
      del: columns.simps)

lemma update_ids: "ids (snd (update_record_status cv t record_id new_status db) t') = ids (db t')"
  using update_cases [of cv t record_id new_status db]
  by (auto simp: ids_def set_column_def comp_def if_distrib [of fst] cong: if_cong)

lemma update_seq:
  "seq (snd (update_record_status cv t record_id new_status db) t') = seq (db t')"
  using update_cases [of cv t record_id new_status db] by auto

lemma update_other_tables:
  "t' \<noteq> Orders \<Longrightarrow> snd (update_record_status cv t record_id new_status db) t' = db t'"
  using update_cases [of cv t record_id new_status db] by auto

lemma update_rows_frame:
  assumes "k < length (rows (db Orders))"
  shows "length (snd (rows (snd (update_record_status cv t record_id new_status db) Orders) ! k)) =
           length (snd (rows (db Orders) ! k)) \<and>
         (j \<noteq> 2 \<longrightarrow>
            snd (rows (snd (update_record_status cv t record_id new_status db) Orders) ! k) ! j =
            snd (rows (db Orders) ! k) ! j)"
  using update_cases [of cv t record_id new_status db] assms
  by (auto simp: set_column_def)

lemma update_other_rows:
  assumes "k < length (rows (db Orders))" "fst (rows (db Orders) ! k) \<noteq> n"
  shows "rows (snd (update_record_status cv t (PyInt n) new_status db) Orders) ! k =
         rows (db Orders) ! k"
  using update_cases [of cv t "PyInt n" new_status db] assms
  by (auto simp: id_matches_Integer split: if_splits)

subsection \<open>The states the program reaches\<close>

lemma wf_db_init: "wf_db init_db"
  by (simp add: wf_db_def wf_tbl_def init_db_def ids_def)

lemma wf_tbl_insert:
  assumes "wf_tbl t tb" "length ws = length (columns t)"
  shows "wf_tbl t \<lparr>rows = rows tb @ [(next_rowid tb, ws)], seq = next_rowid tb\<rparr>"
proof -
  have gt: "\<forall>i \<in> set (ids tb). i < next_rowid tb"
    using next_rowid_gt by blast
  have s: "seq tb < next_rowid tb"
    by (rule next_rowid_gt_seq)
  show ?thesis
    using assms gt s
    by (auto simp: wf_tbl_def ids_def sorted_wrt_append list_all_iff)
qed

lemma wf_db_upd: "wf_db db \<Longrightarrow> wf_tbl t tb \<Longrightarrow> wf_db (db(t := tb))"
  by (cases t) (simp_all add: wf_db_def)

lemma wf_db_tbl: "wf_db db \<Longrightarrow> wf_tbl t (db t)"
  by (cases t) (simp_all add: wf_db_def)

lemma wf_db_add_record:
  assumes "wf_db db"
  shows "wf_db (snd (add_record cv t data db))"
proof -
  have w: "wf_tbl t (db t)"
    using assms by (rule wf_db_tbl)
  show ?thesis
    using assms w
    by (auto simp: add_record_def execute_insert_def Let_def bind_all_length
        intro!: wf_db_upd wf_tbl_insert split: sum.splits)
qed

lemma wf_tbl_map_rows:
  assumes "wf_tbl t tb" "\<And>r. fst (f r) = fst r" "\<And>r. length (snd (f r)) = length (snd r)"
  shows "wf_tbl t (tb\<lparr>rows := map f (rows tb)\<rparr>)"
  using assms by (simp add: wf_tbl_def ids_def list_all_iff comp_def)

lemma wf_db_update_record_status:
  assumes "wf_db db"
  shows "wf_db (snd (update_record_status cv t record_id new_status db))"
proof -
  have w: "wf_tbl t (db t)"
    using assms by (rule wf_db_tbl)
  show ?thesis
    using assms w
    by (auto simp: update_record_status_def execute_update_status_def Let_def set_column_def
        intro!: wf_db_upd wf_tbl_map_rows split: sum.splits option.splits)
qed

text \<open>Every state the program reaches from the empty database is well formed.\<close>

lemma reachable_wf_db: "reachable cv db \<Longrightarrow> wf_db db"
  by (induction rule: reachable.induct)
     (simp_all add: wf_db_init wf_db_add_record wf_db_update_record_status)

lemma wf_tbl_distinct: "wf_tbl t tb \<Longrightarrow> distinct (ids tb)"
  by (simp add: wf_tbl_def strict_sorted_iff)

lemma wf_one_purchase: "wf_db one_purchase"
  by (simp add: wf_db_def wf_tbl_def ids_def init_db_def one_purchase_def mk_column_def)

lemma wf_two_orders: "wf_db two_orders"
  by (simp add: wf_db_def wf_tbl_def ids_def init_db_def two_orders_def mk_column_def)

section \<open>Validation of the text inputs\<close>

text \<open>
  Claim C1, as the program has it. \<^verbatim>\<open>add_record\<close> does not look at its text values: the
  check is \<^verbatim>\<open>validate_input\<close>, which each form calls before \<^verbatim>\<open>add_record\<close>. When a
  required text input of a form (product name, vendor, customer) is empty or only
  whitespace, \<^verbatim>\<open>validate_input\<close> raises the \<^verbatim>\<open>ValueError\<close>, the form shows its message,
  \<^verbatim>\<open>add_record\<close> is not reached and the database is the one before the submission.
\<close>

theorem blank_field_stops_form:
  "(blank product_name \<or> blank vendor \<longrightarrow>
      (\<exists>m. validate_input [(''ProductName'', PyStr product_name), (''Vendor'', PyStr vendor)] =
              Inl (ValueError m) \<and>
            submit_purchase cv product_name price quantity vendor purchase_date db =
              (ErrorShown m, db))) \<and>
   (blank product_name \<or> blank customer \<longrightarrow>
      (\<exists>m. validate_input [(''ProductName'', PyStr product_name), (''Customer'', PyStr customer)] =
              Inl (ValueError m) \<and>
            submit_sale cv product_name price quantity customer sale_date db =
              (ErrorShown m, db))) \<and>
   (blank product_name \<longrightarrow>
      (\<exists>m. validate_input [(''ProductName'', PyStr product_name)] = Inl (ValueError m) \<and>
            submit_order cv product_name quantity status order_date db = (ErrorShown m, db)))"
  unfolding submit_purchase_def submit_sale_def submit_order_def submit_def validate_two validate_one
  by auto

theorem blank_field_stops_form_witness:
  "blank ''  '' \<and>
   submit_purchase (\<lambda>a v. v) ''Widget'' 9.99 3 ''  '' \<lparr>year = 2024, month = 1, day = 15\<rparr> init_db =
     (ErrorShown ''Vendor cannot be empty!'', init_db) \<and>
   submit_sale (\<lambda>a v. v) ''Widget'' 9.99 3 ''  '' \<lparr>year = 2024, month = 1, day = 15\<rparr> init_db =
     (ErrorShown ''Customer cannot be empty!'', init_db) \<and>
   blank '''' \<and>
   submit_order (\<lambda>a v. v) '''' 2 ''Pending'' \<lparr>year = 2024, month = 2, day = 1\<rparr> init_db =
     (ErrorShown ''ProductName cannot be empty!'', init_db)"
proof -
  have b: "blank ''  ''" "blank ''''" "\<not> blank ''Widget''"
    by (simp_all add: space_defs)
  have v1: "validate_input [(''ProductName'', PyStr ''Widget''), (''Vendor'', PyStr ''  '')] =
      Inl (ValueError ''Vendor cannot be empty!'')"
    and v2: "validate_input [(''ProductName'', PyStr ''Widget''), (''Customer'', PyStr ''  '')] =
      Inl (ValueError ''Customer cannot be empty!'')"
    and v3: "validate_input [(''ProductName'', PyStr '''')] =
      Inl (ValueError ''ProductName cannot be empty!'')"
    by (simp_all add: space_defs)
  show ?thesis
    using b v1 v2 v3
      blank_field_stops_form [where product_name = "''Widget''" and vendor = "''  ''"
        and customer = "''  ''" and cv = "\<lambda>a v. v" and price = "9.99" and quantity = 3
        and purchase_date = "\<lparr>year = 2024, month = 1, day = 15\<rparr>"
        and sale_date = "\<lparr>year = 2024, month = 1, day = 15\<rparr>" and db = init_db]
      blank_field_stops_form [where product_name = "''''" and cv = "\<lambda>a v. v" and quantity = 2
        and status = "''Pending''" and order_date = "\<lparr>year = 2024, month = 2, day = 1\<rparr>"
        and db = init_db]
    by auto
qed

text \<open>
  \<^verbatim>\<open>add_record\<close> itself, given an empty product name and a vendor of two spaces, stores
  the row: the purchases table of an empty database has one row afterwards.
\<close>

theorem add_record_blank_counterexample:
  "blank '''' \<and> blank ''  '' \<and>
   add_record (\<lambda>a v. v) Purchases
     [PyStr '''', PyFloat 1, PyInt 1, PyStr ''  '', PyDate \<lparr>year = 2024, month = 1, day = 15\<rparr>]
     init_db =
   (Inr PyNone,
    init_db(Purchases :=
      \<lparr>rows = [(1, [Text '''', Real 1, Integer 1, Text ''  '', Text ''2024-01-15''])], seq = 1\<rparr>))"
  by (simp add: space_defs model_defs)

text \<open>
  Claim C10, as the program has it. \<^verbatim>\<open>validate_input\<close> refuses every value that Python
  takes as false (\<^verbatim>\<open>None\<close>, \<^verbatim>\<open>False\<close>, a zero, an empty string or list), not only blank
  text: a call with such an argument always raises \<^verbatim>\<open>ValueError\<close>. The message names the
  first refused argument in the order of the call: the false one when no argument before
  it is refused, otherwise the earlier one.
\<close>

theorem validate_input_falsy:
  assumes "\<not> truthy v"
  shows "validate_input (pre @ (f, v) # post) =
           (case find (\<lambda>p. rejected (snd p)) pre of
              None \<Rightarrow> Inl (ValueError (f @ '' cannot be empty!''))
            | Some p \<Rightarrow> Inl (ValueError (fst p @ '' cannot be empty!'')))"
  using assms by (simp add: validate_input_append falsy_rejected split: option.splits)

theorem validate_input_falsy_witness:
  "\<not> truthy (PyInt 0) \<and>
   validate_input
     ([(''ProductName'', PyStr ''Widget'')] @ (''Quantity'', PyInt 0) # [(''Vendor'', PyNone)]) =
     Inl (ValueError ''Quantity cannot be empty!'')"
proof -
  have h: "\<not> truthy (PyInt 0)" by simp
  show ?thesis
    using h validate_input_falsy [OF h, of "[(''ProductName'', PyStr ''Widget'')]" "''Quantity''"
        "[(''Vendor'', PyNone)]"]
    by (simp add: space_defs)
qed

text \<open>
  With two false arguments the error names the first one only: the zero passed as \<^verbatim>\<open>B\<close>
  is refused by no error that names \<^verbatim>\<open>B\<close>.
\<close>

theorem validate_input_names_first_counterexample:
  "\<not> truthy (PyInt 0) \<and>
   validate_input [(''A'', PyNone), (''B'', PyInt 0)] = Inl (ValueError ''A cannot be empty!'') \<and>
   validate_input [(''A'', PyNone), (''B'', PyInt 0)] \<noteq> Inl (ValueError ''B cannot be empty!'')"
  by simp

section \<open>Inserting a record\<close>

text \<open>
  Claim C2, as the program has it. \<^verbatim>\<open>add_record\<close> has no \<^verbatim>\<open>return\<close> statement and never
  reads the id the store generated: every insert that succeeds returns \<^verbatim>\<open>None\<close>. The id of
  the new row is one more than the largest id of the table so far, and only a later
  \<^verbatim>\<open>fetch_data\<close> shows it.
\<close>

theorem add_record_returns_None:
  assumes "fst (add_record cv t data db) = Inr r"
  shows "r = PyNone \<and> ids (snd (add_record cv t data db) t) = ids (db t) @ [next_rowid (db t)]"
  using assms
  by (auto simp: add_record_def execute_insert_def ids_def Let_def split: sum.splits if_splits)

theorem add_record_returns_None_witness:
  "fst (add_record (\<lambda>a v. v) Sales
     [PyStr ''Widget'', PyFloat 9.99, PyInt 3, PyStr ''Bob'', PyDate jan15] init_db) = Inr PyNone \<and>
   next_rowid (init_db Sales) = 1 \<and>
   ids (snd (add_record (\<lambda>a v. v) Sales
     [PyStr ''Widget'', PyFloat 9.99, PyInt 3, PyStr ''Bob'', PyDate jan15] init_db) Sales) = [1]"
proof -
  have h: "fst (add_record (\<lambda>a v. v) Sales
     [PyStr ''Widget'', PyFloat 9.99, PyInt 3, PyStr ''Bob'', PyDate jan15] init_db) = Inr PyNone"
    by (simp add: model_defs jan15_def)
  have n: "next_rowid (init_db Sales) = 1" "ids (init_db Sales) = []"
    by (simp_all add: model_defs)
  show ?thesis
    using h n add_record_returns_None [OF h] by simp
qed

text \<open>
  The first order inserted into an empty database gets the id 1, and the call returns
  \<^verbatim>\<open>None\<close>, which is not that id.
\<close>

theorem add_record_returns_id_counterexample:
  "add_record (\<lambda>a v. v) Orders [PyStr ''Gadget'', PyInt 2, PyStr ''Pending'', PyDate feb01]
     init_db =
   (Inr PyNone,
    init_db(Orders :=
      \<lparr>rows = [(1, [Text ''Gadget'', Integer 2, Text ''Pending'', Text ''2024-02-01''])], seq = 1\<rparr>)) \<and>
   PyNone \<noteq> PyInt 1"
  by (simp add: model_defs feb01_def)

text \<open>
  Claim C3, as the program has it. An insert into purchases or sales with a price below 0
  or a quantity of at most 0, and an insert into orders with a quantity of at most 0,
  always fails and leaves the database as it was: no row is added and no existing row
  changes. The failure is the \<^verbatim>\<open>IntegrityError\<close> of the table's \<^verbatim>\<open>CHECK\<close> constraint when
  the quantity fits the 64 bits of an SQLite INTEGER and the table still has a rowid to
  give. A quantity beyond 64 bits never reaches the table: binding it raises
  \<^verbatim>\<open>OverflowError\<close>. A table that has given out its largest rowid fails with
  \<^verbatim>\<open>OperationalError\<close> before the row is checked.
\<close>

theorem bad_amount_rejected:
  "(price < 0 \<or> quantity \<le> 0 \<longrightarrow>
      add_record cv Purchases
        [PyStr product_name, PyFloat price, PyInt quantity, PyStr vendor, PyDate purchase_date] db =
      (Inl (if \<not> int64 quantity then OverflowError
            else if max_rowid < next_rowid (db Purchases) then OperationalError
            else IntegrityError), db)) \<and>
   (price < 0 \<or> quantity \<le> 0 \<longrightarrow>
      add_record cv Sales
        [PyStr product_name, PyFloat price, PyInt quantity, PyStr customer, PyDate sale_date] db =
      (Inl (if \<not> int64 quantity then OverflowError
            else if max_rowid < next_rowid (db Sales) then OperationalError
            else IntegrityError), db)) \<and>
   (quantity \<le> 0 \<longrightarrow>
      add_record cv Orders
        [PyStr product_name, PyInt quantity, PyStr status, PyDate order_date] db =
      (Inl (if \<not> int64 quantity then OverflowError
            else if max_rowid < next_rowid (db Orders) then OperationalError
            else IntegrityError), db))"
  by (auto simp: add_record_def execute_insert_def apply_affinity_def admits_def mk_column_def
        is_iso_date_isoformat Let_def)

theorem bad_amount_rejected_witness:
  "int64 3 \<and> int64 0 \<and> next_rowid (one_purchase Purchases) \<le> max_rowid \<and>
   next_rowid (one_purchase Sales) \<le> max_rowid \<and> next_rowid (one_purchase Orders) \<le> max_rowid \<and>
   add_record (\<lambda>a v. v) Purchases
     [PyStr ''Widget'', PyFloat (- 1), PyInt 3, PyStr ''Acme Co'', PyDate jan15] one_purchase =
     (Inl IntegrityError, one_purchase) \<and>
   add_record (\<lambda>a v. v) Sales
     [PyStr ''Widget'', PyFloat 9.99, PyInt 0, PyStr ''Bob'', PyDate jan15] one_purchase =
     (Inl IntegrityError, one_purchase) \<and>
   add_record (\<lambda>a v. v) Orders
     [PyStr ''Gadget'', PyInt 0, PyStr ''Pending'', PyDate feb01] one_purchase =
     (Inl IntegrityError, one_purchase)"
proof -
  have h: "int64 3" "int64 0"
    by (simp_all add: int64_def)
  have n: "next_rowid (one_purchase Purchases) \<le> max_rowid"
    "next_rowid (one_purchase Sales) \<le> max_rowid"
    "next_rowid (one_purchase Orders) \<le> max_rowid"
    by (simp_all add: next_rowid_def ids_def one_purchase_def init_db_def max_rowid_def)
  show ?thesis
    using h n
      bad_amount_rejected [where quantity = 3 and price = "- 1" and cv = "\<lambda>a v. v"
        and db = one_purchase and product_name = "''Widget''" and vendor = "''Acme Co''"
        and purchase_date = jan15]
      bad_amount_rejected [where quantity = 0 and price = "9.99" and cv = "\<lambda>a v. v"
        and db = one_purchase and product_name = "''Widget''" and customer = "''Bob''"
        and sale_date = jan15]
      bad_amount_rejected [where quantity = 0 and cv = "\<lambda>a v. v" and db = one_purchase
        and product_name = "''Gadget''" and status = "''Pending''" and order_date = feb01]
    by simp
qed

text \<open>
  An order for the quantity \<open>- 2^63 - 1\<close>, which is at most 0, fails with \<^verbatim>\<open>OverflowError\<close>
  while its parameters are bound, not with the constraint's \<^verbatim>\<open>IntegrityError\<close>.
\<close>

theorem bad_amount_overflow_counterexample:
  "(- (2 ^ 63) - 1 :: int) \<le> 0 \<and>
   add_record (\<lambda>a v. v) Orders
     [PyStr ''Gadget'', PyInt (- (2 ^ 63) - 1), PyStr ''Pending'', PyDate feb01] init_db =
     (Inl OverflowError, init_db) \<and>
   OverflowError \<noteq> IntegrityError"
  by (simp add: add_record_def execute_insert_def int64_def mk_column_def)

text \<open>
  Claim C4, as the program has it. For every table and every valid input whose quantity
  fits the 64 bits of an SQLite INTEGER, in a table that still has a rowid to give,
  \<^verbatim>\<open>add_record\<close> succeeds and \<^verbatim>\<open>fetch_data\<close> afterwards returns the rows it returned before
  followed by exactly one new row: the new id and then, position by position, the
  submitted values, except that a submitted \<^verbatim>\<open>date\<close> comes back as the \<^verbatim>\<open>str\<close> of its ISO
  text. The ids of the fetched rows are distinct, and the new id is none of the old ones,
  above every id in the table and above the largest id the table ever gave out.
\<close>

theorem add_record_then_fetch:
  assumes "wf_db db" "valid_input t data" "list_all fits_int64 data"
    "next_rowid (db t) \<le> max_rowid"
  shows "\<exists>row. fst (add_record cv t data db) = Inr PyNone \<and>
      snd (fetch_data t (snd (add_record cv t data db))) = snd (fetch_data t db) @ [row] \<and>
      length row = Suc (length data) \<and>
      fetched (row ! 0) = PyInt (next_rowid (db t)) \<and>
      (\<forall>k < length data.
         (\<forall>d. data ! k = PyDate d \<longrightarrow> fetched (row ! Suc k) = PyStr (isoformat d)) \<and>
         ((\<forall>d. data ! k \<noteq> PyDate d) \<longrightarrow> fetched (row ! Suc k) = data ! k)) \<and>
      distinct (map hd (snd (fetch_data t (snd (add_record cv t data db))))) \<and>
      hd row \<notin> set (map hd (snd (fetch_data t db))) \<and>
      (\<forall>i \<in> set (ids (db t)). i < next_rowid (db t)) \<and>
      seq (db t) < next_rowid (db t)"
proof -
  from execute_insert_valid [where db = db and cv = cv, OF assms(2,3,4)] obtain vs where
    vs: "bind_all data = Inr vs"
      "execute_insert cv t data db =
         Inr (db(t := \<lparr>rows = rows (db t) @ [(next_rowid (db t), vs)], seq = next_rowid (db t)\<rparr>))"
    by blast
  define row where "row = Integer (next_rowid (db t)) # vs"
  have gt: "\<forall>i \<in> set (ids (db t)). i < next_rowid (db t)"
    using next_rowid_gt by blast
  have d: "distinct (ids (db t))"
    using assms(1) wf_db_tbl wf_tbl_distinct by blast
  have d': "distinct (map Integer (map fst (rows (db t)) @ [next_rowid (db t)]))"
    using d gt unfolding distinct_map by (auto simp: ids_def inj_on_def)
  have m: "map bind data = map Inr vs"
    using vs(1) by (rule bind_all_map)
  have l: "length vs = length data"
    using vs(1) by (rule bind_all_length)
  have typed: "list_all2 (\<lambda>c v. fits (col_affinity c) v) (columns t) data"
    using assms(2) by (simp add: valid_input_def well_typed_def)
  have cell: "(\<forall>d. data ! k = PyDate d \<longrightarrow> fetched (row ! Suc k) = PyStr (isoformat d)) \<and>
      ((\<forall>d. data ! k \<noteq> PyDate d) \<longrightarrow> fetched (row ! Suc k) = data ! k)"
    if k: "k < length data" for k
  proof -
    have f: "fits (col_affinity (columns t ! k)) (data ! k)"
      using typed k by (simp add: list_all2_conv_all_nth)
    have "map bind data ! k = map Inr vs ! k"
      using m by simp
    then have b: "bind (data ! k) = Inr (vs ! k)"
      using k l by simp
    show ?thesis
      using fetched_bound [OF f b] by (simp add: row_def)
  qed
  show ?thesis
  proof (intro exI [of _ row] conjI)
    show "fst (add_record cv t data db) = Inr PyNone"
      by (simp add: add_record_def vs(2))
    show "snd (fetch_data t (snd (add_record cv t data db))) = snd (fetch_data t db) @ [row]"
      by (simp add: add_record_def vs(2) fetch_data_def row_def)
    show "length row = Suc (length data)"
      by (simp add: row_def l)
    show "fetched (row ! 0) = PyInt (next_rowid (db t))"
      by (simp add: row_def)
    show "\<forall>k < length data.
         (\<forall>d. data ! k = PyDate d \<longrightarrow> fetched (row ! Suc k) = PyStr (isoformat d)) \<and>
         ((\<forall>d. data ! k \<noteq> PyDate d) \<longrightarrow> fetched (row ! Suc k) = data ! k)"
      using cell by blast
    show "distinct (map hd (snd (fetch_data t (snd (add_record cv t data db)))))"
      using d' by (simp add: add_record_def vs(2) fetch_data_def comp_def)
    show "hd row \<notin> set (map hd (snd (fetch_data t db)))"
      using gt by (auto simp: fetch_data_def ids_def row_def)
    show "\<forall>i \<in> set (ids (db t)). i < next_rowid (db t)"
      by (rule gt)
    show "seq (db t) < next_rowid (db t)"
      by (rule next_rowid_gt_seq)
  qed
qed

theorem add_record_then_fetch_witness:
  "wf_db one_purchase \<and>
   valid_input Purchases [PyStr ''Gadget'', PyFloat 5, PyInt 1, PyStr ''Bolt Ltd'', PyDate feb01] \<and>
   list_all fits_int64 [PyStr ''Gadget'', PyFloat 5, PyInt 1, PyStr ''Bolt Ltd'', PyDate feb01] \<and>
   next_rowid (one_purchase Purchases) = 2 \<and> next_rowid (one_purchase Purchases) \<le> max_rowid \<and>
   map (map fetched) (snd (fetch_data Purchases (snd (add_record (\<lambda>a v. v) Purchases
      [PyStr ''Gadget'', PyFloat 5, PyInt 1, PyStr ''Bolt Ltd'', PyDate feb01] one_purchase)))) =
     [[PyInt 1, PyStr ''Widget'', PyFloat 9.99, PyInt 3, PyStr ''Acme Co'', PyStr ''2024-01-15''],
      [PyInt 2, PyStr ''Gadget'', PyFloat 5, PyInt 1, PyStr ''Bolt Ltd'', PyStr ''2024-02-01'']] \<and>
   (\<exists>row. snd (fetch_data Purchases (snd (add_record (\<lambda>a v. v) Purchases
      [PyStr ''Gadget'', PyFloat 5, PyInt 1, PyStr ''Bolt Ltd'', PyDate feb01] one_purchase))) =
      snd (fetch_data Purchases one_purchase) @ [row] \<and>
      fetched (row ! 0) = PyInt 2)"
proof -
  have w: "wf_db one_purchase"
    by (rule wf_one_purchase)
  have v: "valid_input Purchases
      [PyStr ''Gadget'', PyFloat 5, PyInt 1, PyStr ''Bolt Ltd'', PyDate feb01]"
    by (simp add: valid_input_def well_typed_def mk_column_def)
  have i: "list_all fits_int64
      [PyStr ''Gadget'', PyFloat 5, PyInt 1, PyStr ''Bolt Ltd'', PyDate feb01]"
    by (simp add: int64_def)
  have n: "next_rowid (one_purchase Purchases) = 2"
    by (simp add: next_rowid_def ids_def one_purchase_def)
  have c: "next_rowid (one_purchase Purchases) \<le> max_rowid"
    by (simp add: n max_rowid_def)
  have f: "map (map fetched) (snd (fetch_data Purchases (snd (add_record (\<lambda>a v. v) Purchases
      [PyStr ''Gadget'', PyFloat 5, PyInt 1, PyStr ''Bolt Ltd'', PyDate feb01] one_purchase)))) =
     [[PyInt 1, PyStr ''Widget'', PyFloat 9.99, PyInt 3, PyStr ''Acme Co'', PyStr ''2024-01-15''],
      [PyInt 2, PyStr ''Gadget'', PyFloat 5, PyInt 1, PyStr ''Bolt Ltd'', PyStr ''2024-02-01'']]"
    by (simp add: model_defs fetch_data_def one_purchase_def feb01_def)
  from add_record_then_fetch [where db = one_purchase and cv = "\<lambda>a v. v", OF w v i c]
  obtain row where
    r: "snd (fetch_data Purchases (snd (add_record (\<lambda>a v. v) Purchases
          [PyStr ''Gadget'', PyFloat 5, PyInt 1, PyStr ''Bolt Ltd'', PyDate feb01] one_purchase))) =
        snd (fetch_data Purchases one_purchase) @ [row]"
    and h: "fetched (row ! 0) = PyInt (next_rowid (one_purchase Purchases))"
    by blast
  from h n have "fetched (row ! 0) = PyInt 2"
    by simp
  with w v i n c f r show ?thesis
    by blast
qed

text \<open>
  The date of a valid order comes back as text: the fetched row ends with the \<^verbatim>\<open>str\<close>
  \<^verbatim>\<open>'2024-02-01'\<close>, which is not the submitted \<^verbatim>\<open>datetime.date\<close>.
\<close>

theorem add_record_date_counterexample:
  "valid_input Orders [PyStr ''Gadget'', PyInt 2, PyStr ''Pending'', PyDate feb01] \<and>
   map (map fetched) (snd (fetch_data Orders (snd (add_record (\<lambda>a v. v) Orders
      [PyStr ''Gadget'', PyInt 2, PyStr ''Pending'', PyDate feb01] init_db)))) =
     [[PyInt 1, PyStr ''Gadget'', PyInt 2, PyStr ''Pending'', PyStr ''2024-02-01'']] \<and>
   [PyInt 1, PyStr ''Gadget'', PyInt 2, PyStr ''Pending'', PyStr ''2024-02-01''] \<noteq>
     PyInt 1 # [PyStr ''Gadget'', PyInt 2, PyStr ''Pending'', PyDate feb01]"
  by (simp add: valid_input_def well_typed_def model_defs fetch_data_def feb01_def)

text \<open>
  A valid quantity beyond 64 bits does not reach the table either: the insert raises
  \<^verbatim>\<open>OverflowError\<close> and the database stays as it was.
\<close>

lemma add_record_quantity_overflow:
  "\<not> int64 quantity \<Longrightarrow>
   add_record cv Orders [PyStr product_name, PyInt quantity, PyStr status, PyDate order_date] db =
     (Inl OverflowError, db)"
  by (simp add: add_record_def execute_insert_def)

section \<open>Fetching a table\<close>

text \<open>
  Claim C5. For every table, \<^verbatim>\<open>fetch_data\<close> returns the column names with \<^verbatim>\<open>id\<close> first and
  every row of the table, each with its id and one value for every column, in ascending
  order of the id. That is the order of insertion: a later \<^verbatim>\<open>add_record\<close> puts its row
  after all the rows fetched before, and \<^verbatim>\<open>update_record_status\<close> keeps the order.
\<close>

theorem fetch_data_rows_in_id_order:
  assumes "wf_db db"
  shows "fst (fetch_data t db) = ''id'' # map col_name (columns t) \<and>
     length (snd (fetch_data t db)) = length (rows (db t)) \<and>
     (\<forall>k < length (rows (db t)).
        snd (fetch_data t db) ! k = Integer (fst (rows (db t) ! k)) # snd (rows (db t) ! k)) \<and>
     (\<forall>r \<in> set (snd (fetch_data t db)). length r = length (fst (fetch_data t db))) \<and>
     map hd (snd (fetch_data t db)) = map Integer (ids (db t)) \<and>
     sorted_wrt (<) (ids (db t)) \<and>
     (fst (add_record cv t data db) = Inr r \<longrightarrow>
        (\<exists>row. snd (fetch_data t (snd (add_record cv t data db))) = snd (fetch_data t db) @ [row])) \<and>
     map hd (snd (fetch_data t (snd (update_record_status cv t' record_id new_status db)))) =
       map hd (snd (fetch_data t db))"
proof -
  have w: "wf_tbl t (db t)"
    using assms by (rule wf_db_tbl)
  have a: "\<forall>r \<in> set (snd (fetch_data t db)). length r = length (fst (fetch_data t db))"
    using w by (auto simp: fetch_data_def wf_tbl_def list_all_iff)
  have s: "sorted_wrt (<) (ids (db t))"
    using w by (simp add: wf_tbl_def)
  have h: "\<And>d. map hd (snd (fetch_data t d)) = map Integer (ids (d t))"
    by (simp add: fetch_data_def ids_def)
  have i: "fst (add_record cv t data db) = Inr r \<longrightarrow>
        (\<exists>row. snd (fetch_data t (snd (add_record cv t data db))) = snd (fetch_data t db) @ [row])"
    using insert_appends [of cv t data db r] by (auto simp: fetch_data_def)
  show ?thesis
    using a s i by (simp add: h update_ids) (simp add: fetch_data_def)
qed

theorem fetch_data_rows_in_id_order_witness:
  "wf_db two_orders \<and>
   fetch_data Orders two_orders =
     ([''id'', ''product_name'', ''quantity'', ''status'', ''order_date''],
      [[Integer 1, Text ''Gadget'', Integer 2, Text ''Pending'', Text ''2024-02-01''],
       [Integer 2, Text ''Widget'', Integer 5, Text ''Pending'', Text ''2024-02-03'']]) \<and>
   ids (two_orders Orders) = [1, 2] \<and>
   sorted_wrt (<) (ids (two_orders Orders)) \<and>
   fst (add_record (\<lambda>a v. v) Orders
     [PyStr ''Bolt'', PyInt 7, PyStr ''Completed'', PyDate feb01] two_orders) = Inr PyNone \<and>
   (\<exists>row. snd (fetch_data Orders (snd (add_record (\<lambda>a v. v) Orders
       [PyStr ''Bolt'', PyInt 7, PyStr ''Completed'', PyDate feb01] two_orders))) =
     snd (fetch_data Orders two_orders) @ [row])"
proof -
  have w: "wf_db two_orders"
    by (rule wf_two_orders)
  have f: "fetch_data Orders two_orders =
     ([''id'', ''product_name'', ''quantity'', ''status'', ''order_date''],
      [[Integer 1, Text ''Gadget'', Integer 2, Text ''Pending'', Text ''2024-02-01''],
       [Integer 2, Text ''Widget'', Integer 5, Text ''Pending'', Text ''2024-02-03'']])"
    by (simp add: fetch_data_def two_orders_def mk_column_def)
  have i: "ids (two_orders Orders) = [1, 2]"
    by (simp add: ids_def two_orders_def)
  have a: "fst (add_record (\<lambda>a v. v) Orders
     [PyStr ''Bolt'', PyInt 7, PyStr ''Completed'', PyDate feb01] two_orders) = Inr PyNone"
    by (simp add: model_defs feb01_def two_orders_def)
  show ?thesis
    using w f i a
      fetch_data_rows_in_id_order [OF w, where t = Orders and cv = "\<lambda>a v. v"
        and data = "[PyStr ''Bolt'', PyInt 7, PyStr ''Completed'', PyDate feb01]" and r = PyNone]
    by simp
qed

section \<open>Updating the status of an order\<close>

text \<open>
  Claim C6. For every id of a row of the orders table and each of the two status values,
  \<^verbatim>\<open>update_record_status\<close> succeeds, the row with that id is still there and its status
  column holds the given value, and running the same update on the result succeeds again
  and gives the same database.
\<close>

theorem update_status_sets_and_idempotent:
  assumes "wf_db db" "i \<in> set (ids (db Orders))" "int64 i" "s = ''Pending'' \<or> s = ''Completed''"
  shows "\<exists>db'. update_record_status cv Orders (PyInt i) (PyStr s) db = (Inr PyNone, db') \<and>
      fst (fetch_data Orders db') ! 3 = ''status'' \<and>
      (\<exists>r \<in> set (snd (fetch_data Orders db')). r ! 0 = Integer i) \<and>
      (\<forall>r \<in> set (snd (fetch_data Orders db')). r ! 0 = Integer i \<longrightarrow> r ! 3 = Text s) \<and>
      update_record_status cv Orders (PyInt i) (PyStr s) db' = (Inr PyNone, db')"
proof -
  define f where "f = (\<lambda>r::row. if fst r = i then set_column 2 (Text s) r else r)"
  define db' where "db' = db(Orders := (db Orders)\<lparr>rows := map f (rows (db Orders))\<rparr>)"
  have ex: "list_ex (\<lambda>r. fst r = i) (rows (db Orders))"
    using assms(2) by (auto simp: list_ex_iff ids_def)
  have fst_f: "\<And>r. fst (f r) = fst r"
    by (simp add: f_def set_column_def)
  have ff: "\<And>r. f (f r) = f r"
    by (simp add: f_def set_column_def)
  have len: "\<forall>r \<in> set (rows (db Orders)). length (snd r) = 4"
    using wf_db_tbl [OF assms(1), of Orders] by (simp add: wf_tbl_def list_all_iff)
  have step: "update_record_status cv Orders (PyInt i) (PyStr s) db = (Inr PyNone, db')"
    using ex assms(4) by (simp add: update_orders_typed [OF assms(3)] db'_def f_def)
  have ex': "list_ex (\<lambda>r. fst r = i) (rows (db' Orders))"
    using ex by (auto simp: db'_def list_ex_iff fst_f)
  have again: "update_record_status cv Orders (PyInt i) (PyStr s) db' = (Inr PyNone, db')"
    using ex' assms(4)
    by (simp add: update_orders_typed [OF assms(3)] db'_def f_def [symmetric] ff comp_def)
  have found: "\<exists>r \<in> set (snd (fetch_data Orders db')). r ! 0 = Integer i"
    using ex by (auto simp: fetch_data_def db'_def list_ex_iff fst_f intro!: bexI)
  have set: "\<forall>r \<in> set (snd (fetch_data Orders db')). r ! 0 = Integer i \<longrightarrow> r ! 3 = Text s"
    using len by (auto simp: fetch_data_def db'_def f_def set_column_def)
  have col: "fst (fetch_data Orders db') ! 3 = ''status''"
    by (simp add: fetch_data_def mk_column_def)
  show ?thesis
    using step col found set again by blast
qed

theorem update_status_sets_and_idempotent_witness:
  "wf_db two_orders \<and> 1 \<in> set (ids (two_orders Orders)) \<and> int64 1 \<and>
   (\<exists>db'. update_record_status (\<lambda>a v. v) Orders (PyInt 1) (PyStr ''Completed'') two_orders =
            (Inr PyNone, db') \<and>
          snd (fetch_data Orders db') =
            [[Integer 1, Text ''Gadget'', Integer 2, Text ''Completed'', Text ''2024-02-01''],
             [Integer 2, Text ''Widget'', Integer 5, Text ''Pending'', Text ''2024-02-03'']] \<and>
          update_record_status (\<lambda>a v. v) Orders (PyInt 1) (PyStr ''Completed'') db' =
            (Inr PyNone, db'))"
proof -
  have w: "wf_db two_orders"
    by (rule wf_two_orders)
  have i: "1 \<in> set (ids (two_orders Orders))"
    by (simp add: ids_def two_orders_def)
  have r: "int64 1"
    by (simp add: int64_def)
  have s: "''Completed'' = ''Pending'' \<or> ''Completed'' = ''Completed''"
    by simp
  from update_status_sets_and_idempotent [OF w i r s, of "\<lambda>a v. v"] obtain db' where
    u: "update_record_status (\<lambda>a v. v) Orders (PyInt 1) (PyStr ''Completed'') two_orders =
          (Inr PyNone, db')"
    and again: "update_record_status (\<lambda>a v. v) Orders (PyInt 1) (PyStr ''Completed'') db' =
          (Inr PyNone, db')"
    by blast
  have "snd (fetch_data Orders
      (snd (update_record_status (\<lambda>a v. v) Orders (PyInt 1) (PyStr ''Completed'') two_orders))) =
      [[Integer 1, Text ''Gadget'', Integer 2, Text ''Completed'', Text ''2024-02-01''],
       [Integer 2, Text ''Widget'', Integer 5, Text ''Pending'', Text ''2024-02-03'']]"
    by (simp add: update_orders_typed [OF r] two_orders_def fetch_data_def set_column_def)
  with u have f: "snd (fetch_data Orders db') =
      [[Integer 1, Text ''Gadget'', Integer 2, Text ''Completed'', Text ''2024-02-01''],
       [Integer 2, Text ''Widget'', Integer 5, Text ''Pending'', Text ''2024-02-03'']]"
    by simp
  show ?thesis
    using w i r u f again by blast
qed

text \<open>
  Claim C7, as the program has it. For every id within the 64 bits of an SQLite INTEGER
  that is the id of no row of the orders table, \<^verbatim>\<open>update_record_status\<close> returns without
  an error and the database, all three tables, is the one before the call, whatever the
  new status text is. An \<^verbatim>\<open>int\<close> beyond 64 bits is the id of no row either, but binding
  it raises \<^verbatim>\<open>OverflowError\<close>; the database is unchanged then too.
\<close>

theorem update_status_missing_id:
  assumes "i \<notin> set (ids (db Orders))"
  shows "update_record_status cv Orders (PyInt i) (PyStr s) db =
     (if int64 i then Inr PyNone else Inl OverflowError, db)"
proof (cases "int64 i")
  case True
  then show ?thesis
    using assms by (auto simp: update_orders_typed list_ex_iff ids_def)
next
  case False
  then show ?thesis
    by (simp add: update_record_status_def execute_update_status_def status_index
        del: columns.simps)
qed

theorem update_status_missing_id_witness:
  "int64 99 \<and> 99 \<notin> set (ids (two_orders Orders)) \<and>
   update_record_status (\<lambda>a v. v) Orders (PyInt 99) (PyStr ''Completed'') two_orders =
     (Inr PyNone, two_orders)"
proof -
  have r: "int64 99"
    by (simp add: int64_def)
  have i: "99 \<notin> set (ids (two_orders Orders))"
    by (simp add: ids_def two_orders_def)
  show ?thesis
    using r i
      update_status_missing_id [where i = 99 and db = two_orders and cv = "\<lambda>a v. v"
        and s = "''Completed''"]
    by simp
qed

text \<open>
  The \<^verbatim>\<open>int\<close> \<open>2^63\<close> is the id of no order, and the update with it raises
  \<^verbatim>\<open>OverflowError\<close>.
\<close>

theorem update_status_overflow_counterexample:
  "(2 ^ 63 :: int) \<notin> set (ids (two_orders Orders)) \<and>
   update_record_status (\<lambda>a v. v) Orders (PyInt (2 ^ 63)) (PyStr ''Completed'') two_orders =
     (Inl OverflowError, two_orders)"
  by (simp add: ids_def two_orders_def update_record_status_def execute_update_status_def
      int64_def mk_column_def)

section \<open>What an operation leaves alone\<close>

text \<open>
  Claim C9. The status is the only thing of a stored record that an operation changes.
  \<^verbatim>\<open>update_record_status\<close>, with any arguments, leaves the purchases and sales tables as
  they are, and in the orders table keeps the ids, their order and the sequence number,
  the number of values of every row and every value outside the status column (the third
  column after the id); given the id \<open>n\<close>, it leaves every row with another id as it is.
  \<^verbatim>\<open>add_record\<close> keeps every existing row of every table and only adds after them.
  \<^verbatim>\<open>fetch_data\<close> and \<^verbatim>\<open>validate_input\<close> do not write: the model gives them no database
  to return.
\<close>

theorem only_status_changes:
  "(\<forall>t'. t' \<noteq> Orders \<longrightarrow> snd (update_record_status cv t record_id new_status db) t' = db t') \<and>
   col_name (columns Orders ! 2) = ''status'' \<and>
   ids (snd (update_record_status cv t record_id new_status db) Orders) = ids (db Orders) \<and>
   seq (snd (update_record_status cv t record_id new_status db) Orders) = seq (db Orders) \<and>
   (\<forall>k < length (rows (db Orders)).
      length (snd (rows (snd (update_record_status cv t record_id new_status db) Orders) ! k)) =
        length (snd (rows (db Orders) ! k)) \<and>
      (\<forall>j. j \<noteq> 2 \<longrightarrow>
         snd (rows (snd (update_record_status cv t record_id new_status db) Orders) ! k) ! j =
         snd (rows (db Orders) ! k) ! j) \<and>
      (record_id = PyInt n \<and> fst (rows (db Orders) ! k) \<noteq> n \<longrightarrow>
         rows (snd (update_record_status cv t record_id new_status db) Orders) ! k =
         rows (db Orders) ! k)) \<and>
   (\<forall>t'. \<exists>new. rows (snd (add_record cv t data db) t') = rows (db t') @ new)"
  by (intro conjI allI impI)
     (simp_all add: update_other_tables update_ids update_seq update_rows_frame update_other_rows
        add_record_prefix mk_column_def)

theorem only_status_changes_witness:
  "Purchases \<noteq> Orders \<and>
   snd (update_record_status (\<lambda>a v. v) Orders (PyInt 1) (PyStr ''Completed'') two_orders) Purchases =
     two_orders Purchases \<and>
   (1::nat) < length (rows (two_orders Orders)) \<and> fst (rows (two_orders Orders) ! 1) \<noteq> 1 \<and>
   rows (snd (update_record_status (\<lambda>a v. v) Orders (PyInt 1) (PyStr ''Completed'') two_orders)
     Orders) ! 1 = rows (two_orders Orders) ! 1 \<and>
   (0::nat) < length (rows (two_orders Orders)) \<and> (1::nat) \<noteq> 2 \<and>
   snd (rows (snd (update_record_status (\<lambda>a v. v) Orders (PyInt 1) (PyStr ''Completed'') two_orders)
     Orders) ! 0) ! 1 = snd (rows (two_orders Orders) ! 0) ! 1 \<and>
   rows (snd (update_record_status (\<lambda>a v. v) Orders (PyInt 1) (PyStr ''Completed'') two_orders)
     Orders) =
     [(1, [Text ''Gadget'', Integer 2, Text ''Completed'', Text ''2024-02-01'']),
      (2, [Text ''Widget'', Integer 5, Text ''Pending'', Text ''2024-02-03''])]"
proof -
  have r: "int64 1"
    by (simp add: int64_def)
  have l: "(1::nat) < length (rows (two_orders Orders))" "fst (rows (two_orders Orders) ! 1) \<noteq> 1"
    "(0::nat) < length (rows (two_orders Orders))"
    by (simp_all add: two_orders_def)
  have e: "rows (snd (update_record_status (\<lambda>a v. v) Orders (PyInt 1) (PyStr ''Completed'')
      two_orders) Orders) =
     [(1, [Text ''Gadget'', Integer 2, Text ''Completed'', Text ''2024-02-01'']),
      (2, [Text ''Widget'', Integer 5, Text ''Pending'', Text ''2024-02-03''])]"
    by (simp add: update_orders_typed [OF r] two_orders_def set_column_def)
  note frame = only_status_changes [where cv = "\<lambda>a v. v" and t = Orders
      and record_id = "PyInt 1" and new_status = "PyStr ''Completed''" and db = two_orders
      and n = 1]
  have p: "snd (update_record_status (\<lambda>a v. v) Orders (PyInt 1) (PyStr ''Completed'') two_orders)
      Purchases = two_orders Purchases"
    using frame by simp
  have q: "rows (snd (update_record_status (\<lambda>a v. v) Orders (PyInt 1) (PyStr ''Completed'')
      two_orders) Orders) ! 1 = rows (two_orders Orders) ! 1"
    using frame l by blast
  have c: "snd (rows (snd (update_record_status (\<lambda>a v. v) Orders (PyInt 1) (PyStr ''Completed'')
      two_orders) Orders) ! 0) ! 1 = snd (rows (two_orders Orders) ! 0) ! 1"
  proof -
    have "(1::nat) \<noteq> 2"
      by simp
    with frame l show ?thesis
      by blast
  qed
  show ?thesis
    using l p q c e by simp
qed

end
